theory Spec2Isabelle
  imports Main "HOL-Library.Sublist"
begin

section \<open>JavaScript strings and arrays\<close>

text \<open>
  A JavaScript string is a sequence of code units; \<open>length\<close>, \<open>lastIndexOf\<close>,
  \<open>substr\<close>, \<open>substring\<close> and the comparison of two strings all work on that sequence,
  unit by unit. It is modelled as a \<^typ>\<open>string\<close>, one \<^typ>\<open>char\<close> per code unit
  (the file paths of a build are ASCII). Indices are \<^typ>\<open>int\<close>, because the source
  computes with \<open>-1\<close> and with differences that can be negative.
\<close>

text \<open>\<open>s.lastIndexOf(c)\<close> for a one-character search string: the index of the last
  occurrence of \<open>c\<close>, or \<open>-1\<close> when there is none.\<close>

fun lastIndexOf :: "string \<Rightarrow> char \<Rightarrow> int" where
  "lastIndexOf [] c = - 1"
| "lastIndexOf (x # xs) c =
     (let r = lastIndexOf xs c
      in if 0 \<le> r then r + 1 else if x = c then 0 else - 1)"

text \<open>\<open>s.substr(start)\<close> with the length left out: everything from \<open>start\<close> on; a
  negative \<open>start\<close> counts from the end and is clamped at the beginning.\<close>

definition substr :: "string \<Rightarrow> int \<Rightarrow> string" where
  "substr s start =
     (let n = int (length s);
          from = (if start < 0 then max (n + start) 0 else min start n)
      in drop (nat from) s)"

text \<open>\<open>s.substring(a, b)\<close>: both indices are clamped into \<open>0 .. s.length\<close>, swapped
  when the first is the larger, and the units between them are returned.\<close>

definition substring :: "string \<Rightarrow> int \<Rightarrow> int \<Rightarrow> string" where
  "substring s a b =
     (let n = int (length s);
          a' = min (max a 0) n;
          b' = min (max b 0) n;
          lo = min a' b';
          hi = max a' b'
      in take (nat (hi - lo)) (drop (nat lo) s))"

text \<open>\<open>xs.indexOf(x)\<close> on an array: the first index holding \<open>x\<close>, or \<open>-1\<close>.\<close>

fun indexOf :: "string list \<Rightarrow> string \<Rightarrow> int" where
  "indexOf [] x = - 1"
| "indexOf (y # ys) x =
     (if y = x then 0
      else (let r = indexOf ys x in if 0 \<le> r then r + 1 else - 1))"


section \<open>The chunk manifest template of the bundler configuration\<close>

text \<open>
  \<open>templateContent\<close> receives the object that html-webpack-plugin hands to a template.
  It reads three things of it: \<open>options.chunks\<close>, \<open>files.js\<close> and \<open>files.css\<close>.
\<close>

record plugin_options =
  chunks :: "string list"

record plugin_files =
  js :: "string list"
  css :: "string list"

record html_webpack_plugin =
  options :: plugin_options
  files :: plugin_files

text \<open>\<open>const filenameOf = (pathname) => pathname.substr(pathname.lastIndexOf('/') + 1)\<close>\<close>

definition filenameOf :: "string \<Rightarrow> string" where
  "filenameOf pathname = substr pathname (lastIndexOf pathname CHR ''/'' + 1)"

text \<open>\<open>const chunkName = htmlWebpackPlugin.options.chunks[0]\<close>: reading index 0 of an
  empty array gives \<open>undefined\<close>, which is \<open>None\<close> here.\<close>

definition chunkName :: "html_webpack_plugin \<Rightarrow> string option" where
  "chunkName hp = (case chunks (options hp) of [] \<Rightarrow> None | c # _ \<Rightarrow> Some c)"

text \<open>\<open>const omitPrimaryChunk = (f) => f != chunkName\<close>: \<open>f\<close> is a string, and a string
  is loosely equal to another string when they are the same, and to \<open>undefined\<close> never.\<close>

definition omitPrimaryChunk :: "string option \<Rightarrow> string \<Rightarrow> bool" where
  "omitPrimaryChunk cn f = (Some f \<noteq> cn)"

text \<open>The two callbacks handed to \<open>map\<close>:
  \<open>f.substring(0, f.length - '.js'.length)\<close> and
  \<open>f.substring(0, f.length - '.css'.length)\<close> with \<open>f = filenameOf(pathname)\<close>.\<close>

definition jsName :: "string \<Rightarrow> string" where
  "jsName pathname =
     (let f = filenameOf pathname
      in substring f 0 (int (length f) - int (length ''.js'')))"

definition cssName :: "string \<Rightarrow> string" where
  "cssName pathname =
     (let f = filenameOf pathname
      in substring f 0 (int (length f) - int (length ''.css'')))"

text \<open>The constants \<open>js\<close> and \<open>css\<close> of \<open>templateContent\<close>: \<open>map\<close>, then \<open>filter\<close>.\<close>

definition jsChunks :: "html_webpack_plugin \<Rightarrow> string list" where
  "jsChunks hp = filter (omitPrimaryChunk (chunkName hp)) (map jsName (js (files hp)))"

definition cssChunks :: "html_webpack_plugin \<Rightarrow> string list" where
  "cssChunks hp = filter (omitPrimaryChunk (chunkName hp)) (map cssName (css (files hp)))"

subsection \<open>Serialisation\<close>

text \<open>\<open>JSON.stringify\<close> on an array of strings: each string quoted, with the escapes of
  the language standard (two-character escapes for backspace, tab, line feed, form feed,
  carriage return, the double quote and the backslash, \<open>\u00XX\<close> for the other control
  characters), separated by commas, in square brackets.\<close>

definition hexDigit :: "nat \<Rightarrow> char" where
  "hexDigit n = ''0123456789abcdef'' ! (n mod 16)"

definition quoteUnit :: "char \<Rightarrow> string" where
  "quoteUnit c =
     (if c = CHR 0x08 then [CHR 0x5C, CHR ''b'']
      else if c = CHR 0x09 then [CHR 0x5C, CHR ''t'']
      else if c = CHR 0x0A then [CHR 0x5C, CHR ''n'']
      else if c = CHR 0x0C then [CHR 0x5C, CHR ''f'']
      else if c = CHR 0x0D then [CHR 0x5C, CHR ''r'']
      else if c = CHR 0x22 then [CHR 0x5C, CHR 0x22]
      else if c = CHR 0x5C then [CHR 0x5C, CHR 0x5C]
      else if (of_char c :: nat) < 0x20
        then [CHR 0x5C, CHR ''u'', CHR ''0'', CHR ''0'',
              hexDigit (of_char c div 16), hexDigit (of_char c)]
      else [c])"

definition quoteJSONString :: "string \<Rightarrow> string" where
  "quoteJSONString s = [CHR 0x22] @ concat (map quoteUnit s) @ [CHR 0x22]"

fun joinWith :: "string \<Rightarrow> string list \<Rightarrow> string" where
  "joinWith sep [] = []"
| "joinWith sep [x] = x"
| "joinWith sep (x # y # ys) = x @ sep @ joinWith sep (y # ys)"

definition JSON_stringify :: "string list \<Rightarrow> string" where
  "JSON_stringify xs = ''['' @ joinWith '','' (map quoteJSONString xs) @ '']''"

text \<open>The template literal that \<open>templateContent\<close> returns: a PHP file returning an
  array with the two lists. The line breaks and the indentation are those of the source.\<close>

definition templateText :: "string list \<Rightarrow> string list \<Rightarrow> string" where
  "templateText css_list js_list =
     ''<?php return array('' @ [CHR 0x0A] @
     ''    '' @ [CHR 0x27] @ ''css'' @ [CHR 0x27] @ '' => '' @ JSON_stringify css_list @ '','' @ [CHR 0x0A] @
     ''    '' @ [CHR 0x27] @ ''js'' @ [CHR 0x27] @ '' => '' @ JSON_stringify js_list @ '');''"

definition templateContent :: "html_webpack_plugin \<Rightarrow> string" where
  "templateContent hp = templateText (cssChunks hp) (jsChunks hp)"

subsection \<open>The operation as the specification names it\<close>

text \<open>
  The source has no \<open>throw\<close> statement, and on strings and arrays of strings none of
  the methods it calls throws. The specification asks for two errors,
  \<open>MalformedInput\<close> and \<open>InvalidArgument\<close>; to say whether the code raises them, the
  result of a call is a completion: a normal return with a value, or a throw.
\<close>

datatype error = MalformedInput | InvalidArgument

datatype 'a completion = Normal 'a | Throw error

text \<open>The two derived lists, before they are serialised.\<close>

record chunk_manifest =
  secondaryScriptNames :: "string list"
  secondaryStylesheetNames :: "string list"

text \<open>\<open>buildManifest(entryChunkName, scriptFiles, styleFiles)\<close> is \<open>templateContent\<close> on
  a plugin object whose \<open>options.chunks\<close> is \<open>[entryChunkName]\<close>, as in each
  \<open>new HtmlWebpackPlugin({..., chunks: ['edit-story']})\<close> of the configuration.\<close>

definition pluginObject :: "string \<Rightarrow> string list \<Rightarrow> string list \<Rightarrow> html_webpack_plugin" where
  "pluginObject entryChunkName scriptFiles styleFiles =
     \<lparr>options = \<lparr>chunks = [entryChunkName]\<rparr>,
      files = \<lparr>js = scriptFiles, css = styleFiles\<rparr>\<rparr>"

definition buildManifest ::
  "string \<Rightarrow> string list \<Rightarrow> string list \<Rightarrow> chunk_manifest completion" where
  "buildManifest entryChunkName scriptFiles styleFiles =
     (let hp = pluginObject entryChunkName scriptFiles styleFiles
      in Normal \<lparr>secondaryScriptNames = jsChunks hp,
                 secondaryStylesheetNames = cssChunks hp\<rparr>)"

text \<open>The serialised form of the same call.\<close>

definition buildManifestText :: "string \<Rightarrow> string list \<Rightarrow> string list \<Rightarrow> string completion" where
  "buildManifestText entryChunkName scriptFiles styleFiles =
     Normal (templateContent (pluginObject entryChunkName scriptFiles styleFiles))"

subsection \<open>Reading the returned text\<close>

text \<open>
  To say which lists a returned text holds, the text is read back: the PHP frame is
  taken off, and each array literal is parsed into its strings, undoing the escapes.
  These functions are not code of the repository; they are the reader that the
  properties below use to look into the text that \<open>templateContent\<close> returns.
\<close>

text \<open>The value of a lower-case hexadecimal digit.\<close>

definition hexValue :: "char \<Rightarrow> nat option" where
  "hexValue c =
     (let n = (of_char c :: nat)
      in if 48 \<le> n \<and> n \<le> 57 then Some (n - 48)
         else if 97 \<le> n \<and> n \<le> 102 then Some (n - 87)
         else None)"

text \<open>The unit that a two-character escape stands for.\<close>

definition unescape :: "char \<Rightarrow> char option" where
  "unescape e =
     (if e = CHR ''b'' then Some (CHR 0x08)
      else if e = CHR ''t'' then Some (CHR 0x09)
      else if e = CHR ''n'' then Some (CHR 0x0A)
      else if e = CHR ''f'' then Some (CHR 0x0C)
      else if e = CHR ''r'' then Some (CHR 0x0D)
      else if e = CHR 0x22 then Some (CHR 0x22)
      else if e = CHR 0x5C then Some (CHR 0x5C)
      else None)"

text \<open>The unit that \<open>\uabxy\<close> stands for; the writer only produces \<open>\u00xy\<close>.\<close>

definition hexUnit :: "char \<Rightarrow> char \<Rightarrow> char \<Rightarrow> char \<Rightarrow> char option" where
  "hexUnit a b x y =
     (case (hexValue x, hexValue y) of
        (Some h, Some l) \<Rightarrow>
          if a = CHR ''0'' \<and> b = CHR ''0'' then Some (char_of (16 * h + l)) else None
      | _ \<Rightarrow> None)"

text \<open>Putting a unit in front of the string read after it.\<close>

definition withUnit :: "char \<Rightarrow> (string \<times> string) option \<Rightarrow> (string \<times> string) option" where
  "withUnit u r = (case r of None \<Rightarrow> None | Some (us, rest) \<Rightarrow> Some (u # us, rest))"

text \<open>The units of a string literal after its opening quote, up to the closing quote,
  and the text that follows the closing quote.\<close>

fun readUnits :: "string \<Rightarrow> (string \<times> string) option" where
  "readUnits [] = None"
| "readUnits (c # cs) =
     (if c = CHR 0x22 then Some ([], cs)
      else if c \<noteq> CHR 0x5C then withUnit c (readUnits cs)
      else (case cs of
              [] \<Rightarrow> None
            | e # r \<Rightarrow>
                if e = CHR ''u'' then
                  (case r of
                     a # b # x # y # r' \<Rightarrow>
                       (case hexUnit a b x y of
                          None \<Rightarrow> None
                        | Some u \<Rightarrow> withUnit u (readUnits r'))
                   | _ \<Rightarrow> None)
                else (case unescape e of
                        None \<Rightarrow> None
                      | Some u \<Rightarrow> withUnit u (readUnits r))))"

text \<open>The strings of an array literal after its opening bracket: each one in double
  quotes, a comma between two of them, a closing bracket after the last. The first
  argument bounds the number of strings read.\<close>

fun readItems :: "nat \<Rightarrow> string \<Rightarrow> (string list \<times> string) option" where
  "readItems 0 s = None"
| "readItems (Suc n) s =
     (case s of
        [] \<Rightarrow> None
      | q # cs \<Rightarrow>
          if q \<noteq> CHR 0x22 then None
          else (case readUnits cs of
                  None \<Rightarrow> None
                | Some (x, rest) \<Rightarrow>
                    (case rest of
                       [] \<Rightarrow> None
                     | d # rest' \<Rightarrow>
                         if d = CHR '']'' then Some ([x], rest')
                         else if d = CHR '','' then
                           (case readItems n rest' of
                              None \<Rightarrow> None
                            | Some (xs, r) \<Rightarrow> Some (x # xs, r))
                         else None)))"

definition readArray :: "string \<Rightarrow> (string list \<times> string) option" where
  "readArray s =
     (case s of
        [] \<Rightarrow> None
      | b # cs \<Rightarrow>
          if b \<noteq> CHR ''['' then None
          else (case cs of
                  [] \<Rightarrow> None
                | d # r \<Rightarrow> if d = CHR '']'' then Some ([], r) else readItems (length cs) cs))"

text \<open>The manifest that a text of the form of the template holds.\<close>

definition stripPrefix :: "string \<Rightarrow> string \<Rightarrow> string option" where
  "stripPrefix p s = (if take (length p) s = p then Some (drop (length p) s) else None)"

definition readManifest :: "string \<Rightarrow> chunk_manifest option" where
  "readManifest text =
     (case stripPrefix (''<?php return array('' @ [CHR 0x0A] @
                        ''    '' @ [CHR 0x27] @ ''css'' @ [CHR 0x27] @ '' => '') text of
        None \<Rightarrow> None
      | Some t1 \<Rightarrow>
          (case readArray t1 of
             None \<Rightarrow> None
           | Some (css_list, t2) \<Rightarrow>
               (case stripPrefix ('','' @ [CHR 0x0A] @
                                  ''    '' @ [CHR 0x27] @ ''js'' @ [CHR 0x27] @ '' => '') t2 of
                  None \<Rightarrow> None
                | Some t3 \<Rightarrow>
                    (case readArray t3 of
                       None \<Rightarrow> None
                     | Some (js_list, t4) \<Rightarrow>
                         if t4 = '');''
                         then Some \<lparr>secondaryScriptNames = js_list,
                                    secondaryStylesheetNames = css_list\<rparr>
                         else None))))"


section \<open>The form label of the publish dialog\<close>

text \<open>
  \<open>FormLabel\<close> returns a tree of React elements. An element has a component, its props
  in the order the source writes them, and its children; \<open>{copy}\<close> is a text child.
\<close>

datatype css_value = Css string | Theme_colors_fg_tertiary

text \<open>A component is one of the two imported ones, or \<open>styled(base)\<close> with the rules of
  its template: a selector and the declarations under it.\<close>

datatype component =
    Tooltip
  | Headline
  | Styled component "(string \<times> (string \<times> css_value) list) list"

datatype ('p, 's) jsx_prop =
    Title string
  | Placement 'p
  | As string
  | Size 's
  | HtmlFor string

datatype ('p, 's) node =
    Text string
  | Element component "('p, 's) jsx_prop list" "('p, 's) node list"

text \<open>\<open>const RequiredHeadline = styled(Headline)`&:after { content: '*'; color: ...;
  padding-left: 0.25em; }`\<close>\<close>

definition RequiredHeadline :: component where
  "RequiredHeadline =
     Styled Headline
       [(''&:after'',
         [(''content'', Css [CHR 0x27, CHR ''*'', CHR 0x27]),
          (''color'', Theme_colors_fg_tertiary),
          (''padding-left'', Css ''0.25em'')])]"

text \<open>
  What \<open>FormLabel\<close> imports and the repository's sources here do not hold is a
  parameter: the list \<open>REQUIRED_INPUTS\<close>, the values \<open>PLACEMENT.BOTTOM_START\<close> and
  \<open>THEME_CONSTANTS.TYPOGRAPHY.PRESET_SIZES.XX_SMALL\<close> of the design system (of whatever
  types \<open>'p\<close> and \<open>'s\<close> they are), and the translation function \<open>__\<close>, which maps a text
  and a text domain to the localised text.
\<close>

record ('p, 's) imported =
  REQUIRED_INPUTS :: "string list"
  BOTTOM_START :: 'p
  XX_SMALL :: 's
  translate :: "string \<Rightarrow> string \<Rightarrow> string"

definition FormLabel :: "('p, 's) imported \<Rightarrow> string \<Rightarrow> string \<Rightarrow> ('p, 's) node" where
  "FormLabel im htmlFor copy =
     (if indexOf (REQUIRED_INPUTS im) htmlFor > - 1 then
        Element Tooltip
          [Title (translate im ''Required'' ''web-stories''),
           Placement (BOTTOM_START im)]
          [Element RequiredHeadline
             [As ''label'', Size (XX_SMALL im), HtmlFor htmlFor]
             [Text copy]]
      else
        Element Headline
          [As ''label'', Size (XX_SMALL im), HtmlFor htmlFor]
          [Text copy])"

text \<open>\<open>renderLabel(identifier, displayText)\<close> of the specification.\<close>

definition renderLabel ::
  "('p, 's) imported \<Rightarrow> string \<Rightarrow> string \<Rightarrow> ('p, 's) node completion" where
  "renderLabel im identifier displayText = Normal (FormLabel im identifier displayText)"

subsection \<open>Reading a tree of elements\<close>

text \<open>All elements of a tree, parents before children.\<close>

fun elements :: "('p, 's) node \<Rightarrow> (component \<times> ('p, 's) jsx_prop list \<times> ('p, 's) node list) list" where
  "elements (Text t) = []"
| "elements (Element c ps cs) = (c, ps, cs) # concat (map elements cs)"

text \<open>The component that a chain of \<open>styled(...)\<close> wraps.\<close>

fun baseComponent :: "component \<Rightarrow> component" where
  "baseComponent (Styled b rules) = baseComponent b"
| "baseComponent c = c"

text \<open>A component shows the required marker when one of its \<open>&:after\<close> rules, or one of
  the component it styles, has the asterisk as content.\<close>

fun showsMarker :: "component \<Rightarrow> bool" where
  "showsMarker (Styled b rules) =
     (list_ex (\<lambda>r. fst r = ''&:after'' \<and>
                 (''content'', Css [CHR 0x27, CHR ''*'', CHR 0x27]) \<in> set (snd r)) rules
      \<or> showsMarker b)"
| "showsMarker c = False"

definition containsMarker :: "('p, 's) node \<Rightarrow> bool" where
  "containsMarker n = list_ex (\<lambda>e. showsMarker (fst e)) (elements n)"

definition containsTooltip :: "('p, 's) node \<Rightarrow> bool" where
  "containsTooltip n = list_ex (\<lambda>e. baseComponent (fst e) = Tooltip) (elements n)"

text \<open>The elements rendered as an HTML \<open>label\<close>.\<close>

definition labelElements ::
  "('p, 's) node \<Rightarrow> (component \<times> ('p, 's) jsx_prop list \<times> ('p, 's) node list) list" where
  "labelElements n = filter (\<lambda>e. As ''label'' \<in> set (fst (snd e))) (elements n)"


section \<open>Objects in a store\<close>

text \<open>
  A JavaScript array is an object: the caller of \<open>templateContent\<close> keeps a reference to
  \<open>files.js\<close>, \<open>files.css\<close> and \<open>options.chunks\<close>, and the module of \<open>FormLabel\<close> one to
  \<open>REQUIRED_INPUTS\<close>. A React element is an object too, made anew by each JSX
  expression. To say what a call leaves as it was, the objects live in a store, at
  addresses; the addresses below \<open>next_addr\<close> are in use. The store also holds what the
  function \<open>__\<close> reads, the locale data that were loaded: \<open>localised\<close> is the function from
  a text and a text domain to the translation that \<open>__\<close> computes from them.
\<close>

type_synonym addr = nat

record ('p, 's) store =
  arrays :: "addr \<Rightarrow> string list"
  elems :: "addr \<Rightarrow> ('p, 's) node"
  localised :: "string \<Rightarrow> string \<Rightarrow> string"
  next_addr :: addr

text \<open>\<open>map\<close> and \<open>filter\<close> read the array they are called on and put their result in
  a new one.\<close>

definition new_array :: "string list \<Rightarrow> ('p, 's) store \<Rightarrow> addr \<times> ('p, 's) store" where
  "new_array xs s =
     (next_addr s,
      s\<lparr>arrays := (arrays s)(next_addr s := xs), next_addr := Suc (next_addr s)\<rparr>)"

definition array_map ::
  "(string \<Rightarrow> string) \<Rightarrow> addr \<Rightarrow> ('p, 's) store \<Rightarrow> addr \<times> ('p, 's) store" where
  "array_map f a s = new_array (map f (arrays s a)) s"

definition array_filter ::
  "(string \<Rightarrow> bool) \<Rightarrow> addr \<Rightarrow> ('p, 's) store \<Rightarrow> addr \<times> ('p, 's) store" where
  "array_filter P a s = new_array (filter P (arrays s a)) s"

text \<open>A JSX expression makes a new element from a component, props and children. An
  element is never written to after it is made, so a parent holds its children by
  value.\<close>

definition createElement ::
  "component \<Rightarrow> ('p, 's) jsx_prop list \<Rightarrow> ('p, 's) node list \<Rightarrow> ('p, 's) store
     \<Rightarrow> addr \<times> ('p, 's) store" where
  "createElement c ps cs s =
     (next_addr s,
      s\<lparr>elems := (elems s)(next_addr s := Element c ps cs), next_addr := Suc (next_addr s)\<rparr>)"

record plugin_refs =
  chunks_at :: addr
  js_at :: addr
  css_at :: addr

text \<open>The plugin object that the references show in a store.\<close>

definition pluginAt :: "plugin_refs \<Rightarrow> ('p, 's) store \<Rightarrow> html_webpack_plugin" where
  "pluginAt r s =
     \<lparr>options = \<lparr>chunks = arrays s (chunks_at r)\<rparr>,
      files = \<lparr>js = arrays s (js_at r), css = arrays s (css_at r)\<rparr>\<rparr>"

text \<open>\<open>templateContent\<close>, statement by statement, on the store.\<close>

definition templateContent_st :: "plugin_refs \<Rightarrow> ('p, 's) store \<Rightarrow> string \<times> ('p, 's) store" where
  "templateContent_st r s =
     (let cn = (case arrays s (chunks_at r) of [] \<Rightarrow> None | c # _ \<Rightarrow> Some c);
          (js_mapped, s1) = array_map jsName (js_at r) s;
          (js_arr, s2) = array_filter (omitPrimaryChunk cn) js_mapped s1;
          (css_mapped, s3) = array_map cssName (css_at r) s2;
          (css_arr, s4) = array_filter (omitPrimaryChunk cn) css_mapped s3
      in (templateText (arrays s4 css_arr) (arrays s4 js_arr), s4))"

text \<open>What \<open>FormLabel\<close> imports, with \<open>REQUIRED_INPUTS\<close> and \<open>__\<close> as the store has them.\<close>

definition importsAt :: "addr \<Rightarrow> ('p, 's) imported \<Rightarrow> ('p, 's) store \<Rightarrow> ('p, 's) imported" where
  "importsAt required_at im s =
     im\<lparr>REQUIRED_INPUTS := arrays s required_at, translate := localised s\<rparr>"

text \<open>\<open>FormLabel\<close> on the store: \<open>indexOf\<close> reads the array \<open>REQUIRED_INPUTS\<close>, \<open>__\<close> reads
  the locale, and each JSX expression makes an element, the inner one before the outer
  one that holds it. The result is the address of the outermost element.\<close>

definition FormLabel_st ::
  "addr \<Rightarrow> ('p, 's) imported \<Rightarrow> string \<Rightarrow> string \<Rightarrow> ('p, 's) store \<Rightarrow> addr \<times> ('p, 's) store" where
  "FormLabel_st required_at im htmlFor copy s =
     (if indexOf (arrays s required_at) htmlFor > - 1 then
        (let title = localised s ''Required'' ''web-stories'';
             (label, s1) =
               createElement RequiredHeadline
                 [As ''label'', Size (XX_SMALL im), HtmlFor htmlFor] [Text copy] s
         in createElement Tooltip [Title title, Placement (BOTTOM_START im)] [elems s1 label] s1)
      else
        createElement Headline
          [As ''label'', Size (XX_SMALL im), HtmlFor htmlFor] [Text copy] s)"

text \<open>The element that a call returned, read from the store it left.\<close>

definition outputOf :: "addr \<times> ('p, 's) store \<Rightarrow> ('p, 's) node" where
  "outputOf result = elems (snd result) (fst result)"

subsection \<open>Two stores that differ in the locale only\<close>

text \<open>One locale leaves every text as it is; the other one has a translation of
  \<open>Required\<close>. The example store has \<open>REQUIRED_INPUTS\<close> at address 0 and the three arrays
  of a plugin object at the addresses 1 to 3.\<close>

definition untranslated :: "string \<Rightarrow> string \<Rightarrow> string" where
  "untranslated text domain = text"

definition translated :: "string \<Rightarrow> string \<Rightarrow> string" where
  "translated text domain = (if text = ''Required'' then ''Erforderlich'' else text)"

definition exampleArrays :: "addr \<Rightarrow> string list" where
  "exampleArrays a =
     (if a = 0 then [''title'', ''excerpt'']
      else if a = 1 then [''main'']
      else if a = 2 then [''js/main.js'', ''js/vendor.js'']
      else if a = 3 then [''css/main.css'']
      else [])"

definition noElement :: "addr \<Rightarrow> (string, string) node" where
  "noElement a = Text []"

definition exampleStore :: "(string \<Rightarrow> string \<Rightarrow> string) \<Rightarrow> (string, string) store" where
  "exampleStore l = \<lparr>arrays = exampleArrays, elems = noElement, localised = l, next_addr = 4\<rparr>"

definition exampleImports :: "(string, string) imported" where
  "exampleImports =
     \<lparr>REQUIRED_INPUTS = [''title'', ''excerpt''], BOTTOM_START = ''BOTTOM_START'',
      XX_SMALL = ''XX_SMALL'', translate = untranslated\<rparr>"

definition exampleRefs :: plugin_refs where
  "exampleRefs = \<lparr>chunks_at = 1, js_at = 2, css_at = 3\<rparr>"


section \<open>Facts about the string functions\<close>

lemma lastIndexOf_absent: "c \<notin> set s \<Longrightarrow> lastIndexOf s c = - 1"
  by (induction s) (auto simp: Let_def)

lemma lastIndexOf_bounds: "- 1 \<le> lastIndexOf s c \<and> lastIndexOf s c < int (length s)"
  by (induction s) (auto simp: Let_def)

lemma lastIndexOf_last: "c \<notin> set b \<Longrightarrow> lastIndexOf (d @ c # b) c = int (length d)"
  by (induction d) (auto simp: Let_def lastIndexOf_absent)

lemma substr_drop: "0 \<le> i \<Longrightarrow> substr s i = drop (nat i) s"
  by (auto simp: substr_def Let_def min_def)

lemma substring_take: "substring s 0 (int (length s) - int k) = take (length s - k) s"
  by (auto simp: substring_def Let_def min_def max_def nat_diff_distrib')

lemma filenameOf_no_slash: "CHR ''/'' \<notin> set p \<Longrightarrow> filenameOf p = p"
  by (simp add: filenameOf_def lastIndexOf_absent substr_drop)

lemma filenameOf_last_segment: "CHR ''/'' \<notin> set b \<Longrightarrow> filenameOf (d @ CHR ''/'' # b) = b"
  by (simp add: filenameOf_def lastIndexOf_last substr_drop nat_add_distrib)

lemma lastIndexOf_neg: "(lastIndexOf s c < 0) = (c \<notin> set s)"
  by (induction s) (auto simp: Let_def)

lemma lastIndexOf_rest: "c \<notin> set (drop (nat (lastIndexOf s c + 1)) s)"
proof (induction s)
  case Nil
  then show ?case by simp
next
  case (Cons x xs)
  show ?case
  proof (cases "0 \<le> lastIndexOf xs c")
    case True
    then have "nat (lastIndexOf xs c + 1 + 1) = Suc (nat (lastIndexOf xs c + 1))"
      by simp
    with True Cons show ?thesis by (simp add: Let_def)
  next
    case False
    then have "c \<notin> set xs" using lastIndexOf_neg [of xs c] by simp
    with False show ?thesis by (simp add: Let_def)
  qed
qed

lemma filenameOf_free: "CHR ''/'' \<notin> set (filenameOf p)"
  using lastIndexOf_rest [of "CHR ''/''" p] lastIndexOf_bounds [of p "CHR ''/''"]
  by (simp add: filenameOf_def substr_drop)

lemma filenameOf_suffix: "suffix (filenameOf p) p"
  using lastIndexOf_bounds [of p "CHR ''/''"]
  by (simp add: filenameOf_def substr_drop suffix_drop)


lemma jsName_take: "jsName p = take (length (filenameOf p) - 3) (filenameOf p)"
  using substring_take [of "filenameOf p" 3] by (simp add: jsName_def Let_def)

lemma cssName_take: "cssName p = take (length (filenameOf p) - 4) (filenameOf p)"
  using substring_take [of "filenameOf p" 4] by (simp add: cssName_def Let_def)

lemma indexOf_bounds: "- 1 \<le> indexOf xs x"
  by (induction xs) (auto simp: Let_def)

lemma indexOf_mem: "(indexOf xs x > - 1) = (x \<in> set xs)"
  by (induction xs) (auto simp: Let_def)


section \<open>Facts about the manifest\<close>

lemma chunkName_pluginObject: "chunkName (pluginObject e ss cs) = Some e"
  by (simp add: chunkName_def pluginObject_def)

lemma omitPrimaryChunk_Some: "omitPrimaryChunk (Some e) = (\<lambda>n. n \<noteq> e)"
  by (auto simp: fun_eq_iff omitPrimaryChunk_def)

lemma jsChunks_pluginObject:
  "jsChunks (pluginObject e ss cs) = filter (\<lambda>n. n \<noteq> e) (map jsName ss)"
  by (simp add: jsChunks_def chunkName_pluginObject omitPrimaryChunk_Some)
     (simp add: pluginObject_def)

lemma cssChunks_pluginObject:
  "cssChunks (pluginObject e ss cs) = filter (\<lambda>n. n \<noteq> e) (map cssName cs)"
  by (simp add: cssChunks_def chunkName_pluginObject omitPrimaryChunk_Some)
     (simp add: pluginObject_def)

lemma buildManifest_eq:
  "buildManifest e ss cs =
     Normal \<lparr>secondaryScriptNames = filter (\<lambda>n. n \<noteq> e) (map jsName ss),
             secondaryStylesheetNames = filter (\<lambda>n. n \<noteq> e) (map cssName cs)\<rparr>"
  by (simp add: buildManifest_def Let_def jsChunks_pluginObject cssChunks_pluginObject)

lemma jsName_main: "jsName ''js/main.js'' = ''main''" by code_simp
lemma jsName_vendor: "jsName ''js/vendor.js'' = ''vendor''" by code_simp
lemma cssName_main: "cssName ''css/main.css'' = ''main''" by code_simp


section \<open>Facts about the serialisation\<close>

lemma hexDigits_read_back: "list_all (\<lambda>k. hexValue (hexDigit k) = Some k) [0..<16]"
  by code_simp

lemma hexValue_hexDigit: "n < 16 \<Longrightarrow> hexValue (hexDigit n) = Some n"
  using hexDigits_read_back by (simp add: list_all_iff)

lemma hexUnit_control:
  assumes "(of_char c :: nat) < 0x20"
  shows "hexUnit (CHR ''0'') (CHR ''0'') (hexDigit (of_char c div 16)) (hexDigit (of_char c)) = Some c"
proof -
  let ?n = "of_char c :: nat"
  have a: "hexValue (hexDigit (?n div 16)) = Some (?n div 16)"
    using assms by (intro hexValue_hexDigit) simp
  have "hexDigit ?n = hexDigit (?n mod 16)" by (simp add: hexDigit_def)
  then have b: "hexValue (hexDigit ?n) = Some (?n mod 16)"
    by (simp add: hexValue_hexDigit)
  have "char_of (16 * (?n div 16) + ?n mod 16) = c" by simp
  with a b show ?thesis by (simp add: hexUnit_def)
qed

lemma readUnits_quoteUnit: "readUnits (quoteUnit c @ rest) = withUnit c (readUnits rest)"
proof (cases "c \<in> {CHR 0x08, CHR 0x09, CHR 0x0A, CHR 0x0C, CHR 0x0D, CHR 0x22, CHR 0x5C}")
  case True
  then show ?thesis
    by (elim insertE emptyE) (simp_all add: quoteUnit_def unescape_def)
next
  case False
  show ?thesis
  proof (cases "(of_char c :: nat) < 0x20")
    case True
    with False show ?thesis
      by (simp add: quoteUnit_def hexUnit_control)
  next
    case c: False
    with False show ?thesis by (simp add: quoteUnit_def)
  qed
qed

lemma readUnits_quoted:
  "readUnits (concat (map quoteUnit s) @ CHR 0x22 # rest) = Some (s, rest)"
  by (induction s) (simp_all add: readUnits_quoteUnit withUnit_def)

lemma readItems_joined:
  "xs \<noteq> [] \<Longrightarrow> length xs \<le> n \<Longrightarrow>
   readItems n (joinWith '','' (map quoteJSONString xs) @ CHR '']'' # rest) = Some (xs, rest)"
proof (induction xs arbitrary: n)
  case Nil
  then show ?case by simp
next
  case (Cons x xs)
  then obtain m where n: "n = Suc m" by (cases n) auto
  show ?case
  proof (cases xs)
    case Nil
    then show ?thesis
      by (simp add: n quoteJSONString_def readUnits_quoted)
  next
    case (Cons y ys)
    with Cons.prems n have "length xs \<le> m" and "xs \<noteq> []" by auto
    from Cons.IH [OF this(2) this(1)] Cons show ?thesis
      by (simp add: n quoteJSONString_def readUnits_quoted)
  qed
qed

lemma length_joinWith: "length xs \<le> length (joinWith '','' (map quoteJSONString xs))"
  by (induction xs rule: induct_list012) (simp_all add: quoteJSONString_def)

lemma joinWith_starts_quoted:
  "xs \<noteq> [] \<Longrightarrow> \<exists>t. joinWith '','' (map quoteJSONString xs) = CHR 0x22 # t"
  by (induction xs rule: induct_list012) (simp_all add: quoteJSONString_def)

lemma readArray_stringify: "readArray (JSON_stringify xs @ rest) = Some (xs, rest)"
proof (cases "xs = []")
  case True
  then show ?thesis by (simp add: readArray_def JSON_stringify_def)
next
  case False
  let ?j = "joinWith '','' (map quoteJSONString xs)"
  from False obtain t where t: "?j = CHR 0x22 # t"
    using joinWith_starts_quoted by blast
  have "length xs \<le> length (?j @ CHR '']'' # rest)"
    using length_joinWith [of xs] by simp
  from readItems_joined [OF False this, of rest]
  have "readItems (length (?j @ CHR '']'' # rest)) (?j @ CHR '']'' # rest) = Some (xs, rest)" .
  moreover have "readArray (JSON_stringify xs @ rest)
      = readItems (length (?j @ CHR '']'' # rest)) (?j @ CHR '']'' # rest)"
    by (simp add: readArray_def JSON_stringify_def t)
  ultimately show ?thesis by simp
qed

lemma stripPrefix_append: "stripPrefix p (p @ s) = Some s"
  by (simp add: stripPrefix_def)

lemma readManifest_templateText:
  "readManifest (templateText css_list js_list)
     = Some \<lparr>secondaryScriptNames = js_list, secondaryStylesheetNames = css_list\<rparr>"
proof -
  let ?p1 = "''<?php return array('' @ [CHR 0x0A] @
             ''    '' @ [CHR 0x27] @ ''css'' @ [CHR 0x27] @ '' => ''"
  let ?p2 = "'','' @ [CHR 0x0A] @ ''    '' @ [CHR 0x27] @ ''js'' @ [CHR 0x27] @ '' => ''"
  have shape: "templateText css_list js_list
      = ?p1 @ (JSON_stringify css_list @ (?p2 @ (JSON_stringify js_list @ '');'')))"
    by (simp add: templateText_def)
  show ?thesis
    unfolding shape readManifest_def
    by (simp only: stripPrefix_append readArray_stringify option.case prod.case) simp
qed

lemma readManifest_templateContent:
  "readManifest (templateContent hp)
     = Some \<lparr>secondaryScriptNames = jsChunks hp, secondaryStylesheetNames = cssChunks hp\<rparr>"
  by (simp add: templateContent_def readManifest_templateText)

lemma templateContent_pluginObject:
  "templateContent (pluginObject e ss cs) =
     ''<?php return array('' @ [CHR 0x0A] @
     ''    '' @ [CHR 0x27] @ ''css'' @ [CHR 0x27] @ '' => '' @
       JSON_stringify (filter (\<lambda>n. n \<noteq> e) (map cssName cs)) @ '','' @ [CHR 0x0A] @
     ''    '' @ [CHR 0x27] @ ''js'' @ [CHR 0x27] @ '' => '' @
       JSON_stringify (filter (\<lambda>n. n \<noteq> e) (map jsName ss)) @ '');''"
  by (simp add: templateContent_def templateText_def jsChunks_pluginObject cssChunks_pluginObject)

lemma readManifest_pluginObject:
  "readManifest (templateContent (pluginObject e ss cs)) =
     Some \<lparr>secondaryScriptNames = filter (\<lambda>n. n \<noteq> e) (map jsName ss),
           secondaryStylesheetNames = filter (\<lambda>n. n \<noteq> e) (map cssName cs)\<rparr>"
  by (simp add: readManifest_templateContent jsChunks_pluginObject cssChunks_pluginObject)

lemma JSON_stringify_Nil: "JSON_stringify [] = ''[]''"
  by (simp add: JSON_stringify_def)

lemma JSON_stringify_vendor: "JSON_stringify [''vendor''] = ''['' @ [CHR 0x22] @ ''vendor'' @ [CHR 0x22] @ '']''"
  by (simp add: JSON_stringify_def quoteJSONString_def quoteUnit_def)

lemma JSON_stringify_abc:
  "JSON_stringify [''a'', ''b'', ''c'']
     = ''['' @ [CHR 0x22] @ ''a'' @ [CHR 0x22] @ '','' @ [CHR 0x22] @ ''b'' @ [CHR 0x22] @ '','' @
       [CHR 0x22] @ ''c'' @ [CHR 0x22] @ '']''"
  by (simp add: JSON_stringify_def quoteJSONString_def quoteUnit_def)

lemma JSON_stringify_chunk_a:
  "JSON_stringify [''chunk-a''] = ''['' @ [CHR 0x22] @ ''chunk-a'' @ [CHR 0x22] @ '']''"
  by (simp add: JSON_stringify_def quoteJSONString_def quoteUnit_def)


section \<open>Properties of the manifest template\<close>

text \<open>
  C2. The text that \<open>templateContent\<close> returns for an entry chunk name and two lists
  of paths is the PHP template with the two lists as JSON arrays, and read back it
  holds exactly these lists. The entry is in neither list, and the names of each list
  are the bare names of the input without the entry. For
  \<open>("main", ["js/main.js", "js/vendor.js"], ["css/main.css"])\<close> the lists are
  \<open>{js: ["vendor"], css: []}\<close> and the text is the template with \<open>[]\<close> and
  \<open>["vendor"]\<close>.
\<close>

theorem buildManifest_omits_entry:
  "(\<exists>m. buildManifest entry scripts styles = Normal m
       \<and> templateContent (pluginObject entry scripts styles)
           = ''<?php return array('' @ [CHR 0x0A] @
             ''    '' @ [CHR 0x27] @ ''css'' @ [CHR 0x27] @ '' => '' @
               JSON_stringify (secondaryStylesheetNames m) @ '','' @ [CHR 0x0A] @
             ''    '' @ [CHR 0x27] @ ''js'' @ [CHR 0x27] @ '' => '' @
               JSON_stringify (secondaryScriptNames m) @ '');''
       \<and> readManifest (templateContent (pluginObject entry scripts styles)) = Some m
       \<and> entry \<notin> set (secondaryScriptNames m)
       \<and> entry \<notin> set (secondaryStylesheetNames m)
       \<and> set (secondaryScriptNames m) = jsName ` set scripts - {entry}
       \<and> set (secondaryStylesheetNames m) = cssName ` set styles - {entry})
   \<and> buildManifest ''main'' [''js/main.js'', ''js/vendor.js''] [''css/main.css'']
       = Normal \<lparr>secondaryScriptNames = [''vendor''], secondaryStylesheetNames = []\<rparr>
   \<and> templateContent (pluginObject ''main'' [''js/main.js'', ''js/vendor.js''] [''css/main.css''])
       = ''<?php return array('' @ [CHR 0x0A] @
         ''    '' @ [CHR 0x27] @ ''css'' @ [CHR 0x27] @ '' => [],'' @ [CHR 0x0A] @
         ''    '' @ [CHR 0x27] @ ''js'' @ [CHR 0x27] @ '' => ['' @ [CHR 0x22] @ ''vendor'' @ [CHR 0x22] @ '']);''"
proof (intro conjI)
  let ?m = "\<lparr>secondaryScriptNames = filter (\<lambda>n. n \<noteq> entry) (map jsName scripts),
             secondaryStylesheetNames = filter (\<lambda>n. n \<noteq> entry) (map cssName styles)\<rparr>"
  have "buildManifest entry scripts styles = Normal ?m" by (rule buildManifest_eq)
  moreover have "templateContent (pluginObject entry scripts styles)
           = ''<?php return array('' @ [CHR 0x0A] @
             ''    '' @ [CHR 0x27] @ ''css'' @ [CHR 0x27] @ '' => '' @
               JSON_stringify (secondaryStylesheetNames ?m) @ '','' @ [CHR 0x0A] @
             ''    '' @ [CHR 0x27] @ ''js'' @ [CHR 0x27] @ '' => '' @
               JSON_stringify (secondaryScriptNames ?m) @ '');''"
    by (simp add: templateContent_pluginObject)
  moreover have "readManifest (templateContent (pluginObject entry scripts styles)) = Some ?m"
    by (rule readManifest_pluginObject)
  moreover have "entry \<notin> set (secondaryScriptNames ?m)" by simp
  moreover have "entry \<notin> set (secondaryStylesheetNames ?m)" by simp
  moreover have "set (secondaryScriptNames ?m) = jsName ` set scripts - {entry}" by auto
  moreover have "set (secondaryStylesheetNames ?m) = cssName ` set styles - {entry}" by auto
  ultimately show "\<exists>m. buildManifest entry scripts styles = Normal m
       \<and> templateContent (pluginObject entry scripts styles)
           = ''<?php return array('' @ [CHR 0x0A] @
             ''    '' @ [CHR 0x27] @ ''css'' @ [CHR 0x27] @ '' => '' @
               JSON_stringify (secondaryStylesheetNames m) @ '','' @ [CHR 0x0A] @
             ''    '' @ [CHR 0x27] @ ''js'' @ [CHR 0x27] @ '' => '' @
               JSON_stringify (secondaryScriptNames m) @ '');''
       \<and> readManifest (templateContent (pluginObject entry scripts styles)) = Some m
       \<and> entry \<notin> set (secondaryScriptNames m)
       \<and> entry \<notin> set (secondaryStylesheetNames m)
       \<and> set (secondaryScriptNames m) = jsName ` set scripts - {entry}
       \<and> set (secondaryStylesheetNames m) = cssName ` set styles - {entry}"
    by blast
  show "buildManifest ''main'' [''js/main.js'', ''js/vendor.js''] [''css/main.css'']
       = Normal \<lparr>secondaryScriptNames = [''vendor''], secondaryStylesheetNames = []\<rparr>"
    unfolding buildManifest_eq by (simp add: jsName_main jsName_vendor cssName_main)
  show "templateContent (pluginObject ''main'' [''js/main.js'', ''js/vendor.js''] [''css/main.css''])
       = ''<?php return array('' @ [CHR 0x0A] @
         ''    '' @ [CHR 0x27] @ ''css'' @ [CHR 0x27] @ '' => [],'' @ [CHR 0x0A] @
         ''    '' @ [CHR 0x27] @ ''js'' @ [CHR 0x27] @ '' => ['' @ [CHR 0x22] @ ''vendor'' @ [CHR 0x22] @ '']);''"
    unfolding templateContent_pluginObject
    by (simp add: jsName_main jsName_vendor cssName_main JSON_stringify_Nil JSON_stringify_vendor)
qed

theorem buildManifest_omits_entry_witness:
  "\<exists>m. buildManifest ''edit-story'' [''edit-story.js'', ''vendors-1f.js''] [''../css/edit-story.css'']
         = Normal m
     \<and> readManifest (templateContent
           (pluginObject ''edit-story'' [''edit-story.js'', ''vendors-1f.js''] [''../css/edit-story.css'']))
         = Some m
     \<and> ''edit-story'' \<notin> set (secondaryScriptNames m)
     \<and> ''edit-story'' \<notin> set (secondaryStylesheetNames m)"
  using buildManifest_omits_entry
    [of "''edit-story''" "[''edit-story.js'', ''vendors-1f.js'']" "[''../css/edit-story.css'']"]
  by blast

lemma jsName_a: "jsName ''a.js'' = ''a''" by code_simp
lemma jsName_b: "jsName ''b.js'' = ''b''" by code_simp
lemma jsName_c: "jsName ''c.js'' = ''c''" by code_simp

text \<open>
  C4. The lists in the text that \<open>templateContent\<close> returns keep the order of the
  input: the text is the PHP template with the two lists as JSON arrays, read back it
  holds exactly these lists, and each list is the list of bare names of the input with
  the entry filtered out, hence a subsequence of it. For
  \<open>("x", ["a.js", "b.js", "c.js"], [])\<close> the lists are \<open>{js: ["a", "b", "c"], css: []}\<close>
  and the text is the template with \<open>[]\<close> and \<open>["a","b","c"]\<close>.
\<close>

theorem buildManifest_order_preserved:
  "(\<exists>m. buildManifest entry scripts styles = Normal m
       \<and> templateContent (pluginObject entry scripts styles)
           = ''<?php return array('' @ [CHR 0x0A] @
             ''    '' @ [CHR 0x27] @ ''css'' @ [CHR 0x27] @ '' => '' @
               JSON_stringify (secondaryStylesheetNames m) @ '','' @ [CHR 0x0A] @
             ''    '' @ [CHR 0x27] @ ''js'' @ [CHR 0x27] @ '' => '' @
               JSON_stringify (secondaryScriptNames m) @ '');''
       \<and> readManifest (templateContent (pluginObject entry scripts styles)) = Some m
       \<and> secondaryScriptNames m = filter (\<lambda>n. n \<noteq> entry) (map jsName scripts)
       \<and> secondaryStylesheetNames m = filter (\<lambda>n. n \<noteq> entry) (map cssName styles)
       \<and> subseq (secondaryScriptNames m) (map jsName scripts)
       \<and> subseq (secondaryStylesheetNames m) (map cssName styles))
   \<and> buildManifest ''x'' [''a.js'', ''b.js'', ''c.js''] []
       = Normal \<lparr>secondaryScriptNames = [''a'', ''b'', ''c''], secondaryStylesheetNames = []\<rparr>
   \<and> templateContent (pluginObject ''x'' [''a.js'', ''b.js'', ''c.js''] [])
       = ''<?php return array('' @ [CHR 0x0A] @
         ''    '' @ [CHR 0x27] @ ''css'' @ [CHR 0x27] @ '' => [],'' @ [CHR 0x0A] @
         ''    '' @ [CHR 0x27] @ ''js'' @ [CHR 0x27] @ '' => ['' @
           [CHR 0x22] @ ''a'' @ [CHR 0x22] @ '','' @
           [CHR 0x22] @ ''b'' @ [CHR 0x22] @ '','' @
           [CHR 0x22] @ ''c'' @ [CHR 0x22] @ '']);''"
proof (intro conjI)
  let ?m = "\<lparr>secondaryScriptNames = filter (\<lambda>n. n \<noteq> entry) (map jsName scripts),
             secondaryStylesheetNames = filter (\<lambda>n. n \<noteq> entry) (map cssName styles)\<rparr>"
  have "buildManifest entry scripts styles = Normal ?m" by (rule buildManifest_eq)
  moreover have "templateContent (pluginObject entry scripts styles)
           = ''<?php return array('' @ [CHR 0x0A] @
             ''    '' @ [CHR 0x27] @ ''css'' @ [CHR 0x27] @ '' => '' @
               JSON_stringify (secondaryStylesheetNames ?m) @ '','' @ [CHR 0x0A] @
             ''    '' @ [CHR 0x27] @ ''js'' @ [CHR 0x27] @ '' => '' @
               JSON_stringify (secondaryScriptNames ?m) @ '');''"
    by (simp add: templateContent_pluginObject)
  moreover have "readManifest (templateContent (pluginObject entry scripts styles)) = Some ?m"
    by (rule readManifest_pluginObject)
  moreover have "secondaryScriptNames ?m = filter (\<lambda>n. n \<noteq> entry) (map jsName scripts)"
    by simp
  moreover have "secondaryStylesheetNames ?m = filter (\<lambda>n. n \<noteq> entry) (map cssName styles)"
    by simp
  moreover have "subseq (secondaryScriptNames ?m) (map jsName scripts)" by simp
  moreover have "subseq (secondaryStylesheetNames ?m) (map cssName styles)" by simp
  ultimately show "\<exists>m. buildManifest entry scripts styles = Normal m
       \<and> templateContent (pluginObject entry scripts styles)
           = ''<?php return array('' @ [CHR 0x0A] @
             ''    '' @ [CHR 0x27] @ ''css'' @ [CHR 0x27] @ '' => '' @
               JSON_stringify (secondaryStylesheetNames m) @ '','' @ [CHR 0x0A] @
             ''    '' @ [CHR 0x27] @ ''js'' @ [CHR 0x27] @ '' => '' @
               JSON_stringify (secondaryScriptNames m) @ '');''
       \<and> readManifest (templateContent (pluginObject entry scripts styles)) = Some m
       \<and> secondaryScriptNames m = filter (\<lambda>n. n \<noteq> entry) (map jsName scripts)
       \<and> secondaryStylesheetNames m = filter (\<lambda>n. n \<noteq> entry) (map cssName styles)
       \<and> subseq (secondaryScriptNames m) (map jsName scripts)
       \<and> subseq (secondaryStylesheetNames m) (map cssName styles)"
    by blast
  show "buildManifest ''x'' [''a.js'', ''b.js'', ''c.js''] []
       = Normal \<lparr>secondaryScriptNames = [''a'', ''b'', ''c''], secondaryStylesheetNames = []\<rparr>"
    unfolding buildManifest_eq by (simp add: jsName_a jsName_b jsName_c)
  show "templateContent (pluginObject ''x'' [''a.js'', ''b.js'', ''c.js''] [])
       = ''<?php return array('' @ [CHR 0x0A] @
         ''    '' @ [CHR 0x27] @ ''css'' @ [CHR 0x27] @ '' => [],'' @ [CHR 0x0A] @
         ''    '' @ [CHR 0x27] @ ''js'' @ [CHR 0x27] @ '' => ['' @
           [CHR 0x22] @ ''a'' @ [CHR 0x22] @ '','' @
           [CHR 0x22] @ ''b'' @ [CHR 0x22] @ '','' @
           [CHR 0x22] @ ''c'' @ [CHR 0x22] @ '']);''"
    unfolding templateContent_pluginObject
    by (simp add: jsName_a jsName_b jsName_c JSON_stringify_Nil JSON_stringify_abc)
qed

theorem buildManifest_order_preserved_witness:
  "\<exists>m. buildManifest ''b'' [''js/c.js'', ''js/b.js'', ''js/a.js''] [''b.css'', ''a.css''] = Normal m
     \<and> readManifest (templateContent
           (pluginObject ''b'' [''js/c.js'', ''js/b.js'', ''js/a.js''] [''b.css'', ''a.css''])) = Some m
     \<and> subseq (secondaryScriptNames m) (map jsName [''js/c.js'', ''js/b.js'', ''js/a.js''])
     \<and> subseq (secondaryStylesheetNames m) (map cssName [''b.css'', ''a.css''])"
  using buildManifest_order_preserved
    [of "''b''" "[''js/c.js'', ''js/b.js'', ''js/a.js'']" "[''b.css'', ''a.css'']"]
  by blast

lemma jsName_filenameOf: "jsName (filenameOf p) = jsName p"
  by (simp add: jsName_def filenameOf_no_slash [OF filenameOf_free])

lemma cssName_filenameOf: "cssName (filenameOf p) = cssName p"
  by (simp add: cssName_def filenameOf_no_slash [OF filenameOf_free])

lemma jsName_nested: "jsName ''dir/sub/chunk-a.js'' = ''chunk-a''" by code_simp

text \<open>
  C6. The base filename is what follows the last \<open>/\<close> of the path, and the whole path
  when it has no \<open>/\<close>: it has no \<open>/\<close> itself and ends the path. The text that
  \<open>templateContent\<close> returns is the PHP template with the two lists as JSON arrays; the
  names in them are computed from the base filenames alone, so the text for a list of
  paths is the text for their base filenames and the directories do not matter. For
  \<open>("main", ["dir/sub/chunk-a.js"], [])\<close> the lists are \<open>{js: ["chunk-a"], css: []}\<close>
  and the text is the template with \<open>[]\<close> and \<open>["chunk-a"]\<close>.
\<close>

theorem filenameOf_final_segment:
  "(CHR ''/'' \<notin> set p \<longrightarrow> filenameOf p = p)
   \<and> (CHR ''/'' \<notin> set b \<longrightarrow> filenameOf (d @ CHR ''/'' # b) = b)
   \<and> CHR ''/'' \<notin> set (filenameOf p) \<and> suffix (filenameOf p) p
   \<and> (\<exists>m. buildManifest entry scripts styles = Normal m
         \<and> buildManifest entry (map filenameOf scripts) (map filenameOf styles) = Normal m
         \<and> templateContent (pluginObject entry scripts styles)
             = ''<?php return array('' @ [CHR 0x0A] @
               ''    '' @ [CHR 0x27] @ ''css'' @ [CHR 0x27] @ '' => '' @
                 JSON_stringify (secondaryStylesheetNames m) @ '','' @ [CHR 0x0A] @
               ''    '' @ [CHR 0x27] @ ''js'' @ [CHR 0x27] @ '' => '' @
                 JSON_stringify (secondaryScriptNames m) @ '');''
         \<and> templateContent (pluginObject entry (map filenameOf scripts) (map filenameOf styles))
             = templateContent (pluginObject entry scripts styles)
         \<and> readManifest (templateContent (pluginObject entry scripts styles)) = Some m
         \<and> secondaryScriptNames m
             = filter (\<lambda>n. n \<noteq> entry)
                 (map (\<lambda>q. take (length (filenameOf q) - 3) (filenameOf q)) scripts)
         \<and> secondaryStylesheetNames m
             = filter (\<lambda>n. n \<noteq> entry)
                 (map (\<lambda>q. take (length (filenameOf q) - 4) (filenameOf q)) styles))
   \<and> buildManifest ''main'' [''dir/sub/chunk-a.js''] []
       = Normal \<lparr>secondaryScriptNames = [''chunk-a''], secondaryStylesheetNames = []\<rparr>
   \<and> templateContent (pluginObject ''main'' [''dir/sub/chunk-a.js''] [])
       = ''<?php return array('' @ [CHR 0x0A] @
         ''    '' @ [CHR 0x27] @ ''css'' @ [CHR 0x27] @ '' => [],'' @ [CHR 0x0A] @
         ''    '' @ [CHR 0x27] @ ''js'' @ [CHR 0x27] @ '' => ['' @
           [CHR 0x22] @ ''chunk-a'' @ [CHR 0x22] @ '']);''"
proof (intro conjI)
  show "CHR ''/'' \<notin> set p \<longrightarrow> filenameOf p = p"
    by (simp add: filenameOf_no_slash)
  show "CHR ''/'' \<notin> set b \<longrightarrow> filenameOf (d @ CHR ''/'' # b) = b"
    by (simp add: filenameOf_last_segment)
  show "CHR ''/'' \<notin> set (filenameOf p)" by (rule filenameOf_free)
  show "suffix (filenameOf p) p" by (rule filenameOf_suffix)
  have js: "jsName \<circ> filenameOf = jsName"
    by (simp add: fun_eq_iff jsName_filenameOf)
  have cs: "cssName \<circ> filenameOf = cssName"
    by (simp add: fun_eq_iff cssName_filenameOf)
  have js': "jsName = (\<lambda>q. take (length (filenameOf q) - 3) (filenameOf q))"
    by (simp add: fun_eq_iff jsName_take)
  have cs': "cssName = (\<lambda>q. take (length (filenameOf q) - 4) (filenameOf q))"
    by (simp add: fun_eq_iff cssName_take)
  let ?m = "\<lparr>secondaryScriptNames = filter (\<lambda>n. n \<noteq> entry) (map jsName scripts),
             secondaryStylesheetNames = filter (\<lambda>n. n \<noteq> entry) (map cssName styles)\<rparr>"
  have "buildManifest entry scripts styles = Normal ?m" by (rule buildManifest_eq)
  moreover have "buildManifest entry (map filenameOf scripts) (map filenameOf styles) = Normal ?m"
    unfolding buildManifest_eq by (simp add: js cs)
  moreover have "templateContent (pluginObject entry scripts styles)
             = ''<?php return array('' @ [CHR 0x0A] @
               ''    '' @ [CHR 0x27] @ ''css'' @ [CHR 0x27] @ '' => '' @
                 JSON_stringify (secondaryStylesheetNames ?m) @ '','' @ [CHR 0x0A] @
               ''    '' @ [CHR 0x27] @ ''js'' @ [CHR 0x27] @ '' => '' @
                 JSON_stringify (secondaryScriptNames ?m) @ '');''"
    by (simp add: templateContent_pluginObject)
  moreover have "templateContent (pluginObject entry (map filenameOf scripts) (map filenameOf styles))
             = templateContent (pluginObject entry scripts styles)"
    unfolding templateContent_pluginObject by (simp add: js cs)
  moreover have "readManifest (templateContent (pluginObject entry scripts styles)) = Some ?m"
    by (rule readManifest_pluginObject)
  moreover have "secondaryScriptNames ?m
             = filter (\<lambda>n. n \<noteq> entry)
                 (map (\<lambda>q. take (length (filenameOf q) - 3) (filenameOf q)) scripts)"
    using js' by simp
  moreover have "secondaryStylesheetNames ?m
             = filter (\<lambda>n. n \<noteq> entry)
                 (map (\<lambda>q. take (length (filenameOf q) - 4) (filenameOf q)) styles)"
    using cs' by simp
  ultimately show "\<exists>m. buildManifest entry scripts styles = Normal m
         \<and> buildManifest entry (map filenameOf scripts) (map filenameOf styles) = Normal m
         \<and> templateContent (pluginObject entry scripts styles)
             = ''<?php return array('' @ [CHR 0x0A] @
               ''    '' @ [CHR 0x27] @ ''css'' @ [CHR 0x27] @ '' => '' @
                 JSON_stringify (secondaryStylesheetNames m) @ '','' @ [CHR 0x0A] @
               ''    '' @ [CHR 0x27] @ ''js'' @ [CHR 0x27] @ '' => '' @
                 JSON_stringify (secondaryScriptNames m) @ '');''
         \<and> templateContent (pluginObject entry (map filenameOf scripts) (map filenameOf styles))
             = templateContent (pluginObject entry scripts styles)
         \<and> readManifest (templateContent (pluginObject entry scripts styles)) = Some m
         \<and> secondaryScriptNames m
             = filter (\<lambda>n. n \<noteq> entry)
                 (map (\<lambda>q. take (length (filenameOf q) - 3) (filenameOf q)) scripts)
         \<and> secondaryStylesheetNames m
             = filter (\<lambda>n. n \<noteq> entry)
                 (map (\<lambda>q. take (length (filenameOf q) - 4) (filenameOf q)) styles)"
    by blast
  show "buildManifest ''main'' [''dir/sub/chunk-a.js''] []
       = Normal \<lparr>secondaryScriptNames = [''chunk-a''], secondaryStylesheetNames = []\<rparr>"
    unfolding buildManifest_eq by (simp add: jsName_nested)
  show "templateContent (pluginObject ''main'' [''dir/sub/chunk-a.js''] [])
       = ''<?php return array('' @ [CHR 0x0A] @
         ''    '' @ [CHR 0x27] @ ''css'' @ [CHR 0x27] @ '' => [],'' @ [CHR 0x0A] @
         ''    '' @ [CHR 0x27] @ ''js'' @ [CHR 0x27] @ '' => ['' @
           [CHR 0x22] @ ''chunk-a'' @ [CHR 0x22] @ '']);''"
    unfolding templateContent_pluginObject
    by (simp add: jsName_nested JSON_stringify_Nil JSON_stringify_chunk_a)
qed

theorem filenameOf_final_segment_witness:
  "CHR ''/'' \<notin> set ''chunk-a.js'' \<and> filenameOf ''chunk-a.js'' = ''chunk-a.js''
   \<and> filenameOf (''../css'' @ CHR ''/'' # ''chunk-a.js'') = ''chunk-a.js''"
  using filenameOf_final_segment [of "''chunk-a.js''" "''chunk-a.js''" "''../css''" "''main''" "[]" "[]"]
  by simp

lemma jsName_chunk: "jsName ''chunk'' = ''ch''" by code_simp

lemma not_suffix_chunk: "\<not> suffix ''.js'' ''chunk''"
  by (simp add: suffix_to_prefix)

text \<open>
  C9. The bare name of a script path is its base filename without its last 3
  characters, and that of a style path the base filename without its last 4, whatever
  these characters are: the base filename is the bare name followed by 3 (4)
  characters when it has that many, and the bare name is empty when it has no more.
  So \<open>"chunk"\<close> gives \<open>"ch"\<close>, and every call returns a manifest.
\<close>

theorem extension_stripped_blindly:
  "jsName p = take (length (filenameOf p) - 3) (filenameOf p)
   \<and> cssName p = take (length (filenameOf p) - 4) (filenameOf p)
   \<and> (3 \<le> length (filenameOf p) \<longrightarrow>
        (\<exists>ext. length ext = 3 \<and> filenameOf p = jsName p @ ext))
   \<and> (4 \<le> length (filenameOf p) \<longrightarrow>
        (\<exists>ext. length ext = 4 \<and> filenameOf p = cssName p @ ext))
   \<and> (length (filenameOf p) \<le> 3 \<longrightarrow> jsName p = [])
   \<and> (length (filenameOf p) \<le> 4 \<longrightarrow> cssName p = [])
   \<and> jsName ''chunk'' = ''ch''
   \<and> (\<exists>m. buildManifest entry scripts styles = Normal m)
   \<and> buildManifest ''main'' [''chunk''] []
       = Normal \<lparr>secondaryScriptNames = [''ch''], secondaryStylesheetNames = []\<rparr>"
proof -
  let ?f = "filenameOf p"
  have js: "jsName p = take (length ?f - 3) ?f" by (rule jsName_take)
  have cs: "cssName p = take (length ?f - 4) ?f" by (rule cssName_take)
  have e3: "\<exists>ext. length ext = 3 \<and> ?f = jsName p @ ext" if "3 \<le> length ?f"
  proof (intro exI conjI)
    show "length (drop (length ?f - 3) ?f) = 3" using that by simp
    show "?f = jsName p @ drop (length ?f - 3) ?f" by (simp add: js)
  qed
  have e4: "\<exists>ext. length ext = 4 \<and> ?f = cssName p @ ext" if "4 \<le> length ?f"
  proof (intro exI conjI)
    show "length (drop (length ?f - 4) ?f) = 4" using that by simp
    show "?f = cssName p @ drop (length ?f - 4) ?f" by (simp add: cs)
  qed
  have s3: "jsName p = []" if "length ?f \<le> 3" using that by (simp add: js)
  have s4: "cssName p = []" if "length ?f \<le> 4" using that by (simp add: cs)
  have tot: "\<exists>m. buildManifest entry scripts styles = Normal m"
    unfolding buildManifest_eq by simp
  have ex: "buildManifest ''main'' [''chunk''] []
       = Normal \<lparr>secondaryScriptNames = [''ch''], secondaryStylesheetNames = []\<rparr>"
    unfolding buildManifest_eq by (simp add: jsName_chunk)
  from js cs e3 e4 s3 s4 tot ex jsName_chunk show ?thesis by blast
qed

lemma filenameOf_ab: "filenameOf ''js/ab'' = ''ab''" by code_simp
lemma filenameOf_abjs: "filenameOf ''js/ab.js'' = ''ab.js''" by code_simp

theorem extension_stripped_blindly_witness:
  "jsName ''js/ab'' = [] \<and> cssName ''js/ab'' = []
   \<and> (\<exists>ext. length ext = 3 \<and> ''ab.js'' = jsName ''js/ab.js'' @ ext)"
  using extension_stripped_blindly [of "''js/ab''" "''main''" "[]" "[]"]
    extension_stripped_blindly [of "''js/ab.js''" "''main''" "[]" "[]"]
  by (simp add: filenameOf_ab filenameOf_abjs)

text \<open>
  C3, as the specification states it, fails: \<open>"chunk"\<close> does not end in \<open>.js\<close>, and
  \<open>buildManifest("main", ["chunk"], [])\<close> raises nothing; it returns the manifest with
  the truncated name \<open>"ch"\<close>.
\<close>

theorem buildManifest_raises_counterexample:
  "\<not> suffix ''.js'' ''chunk''
   \<and> buildManifest ''main'' [''chunk''] [] \<noteq> Throw MalformedInput
   \<and> buildManifest ''main'' [''chunk''] []
       = Normal \<lparr>secondaryScriptNames = [''ch''], secondaryStylesheetNames = []\<rparr>"
  unfolding buildManifest_eq by (simp add: jsName_chunk not_suffix_chunk)

text \<open>
  C3, amended. For a path of the script list that does not end in \<open>.js\<close>,
  \<open>buildManifest\<close> raises no error: it returns a manifest in which the bare name of the
  path is its base filename without its last 3 characters (unless that name is the
  entry), and the manifest is whole: each list has one name for every input path whose
  bare name is not the entry.
\<close>

theorem buildManifest_returns_on_malformed:
  assumes "p \<in> set scripts" and "\<not> suffix ''.js'' p"
  shows "\<exists>m. buildManifest entry scripts styles = Normal m
           \<and> jsName p = take (length (filenameOf p) - 3) (filenameOf p)
           \<and> (jsName p \<noteq> entry \<longrightarrow> jsName p \<in> set (secondaryScriptNames m))
           \<and> length (secondaryScriptNames m) = length (filter (\<lambda>q. jsName q \<noteq> entry) scripts)
           \<and> length (secondaryStylesheetNames m) = length (filter (\<lambda>q. cssName q \<noteq> entry) styles)"
proof -
  let ?m = "\<lparr>secondaryScriptNames = filter (\<lambda>n. n \<noteq> entry) (map jsName scripts),
             secondaryStylesheetNames = filter (\<lambda>n. n \<noteq> entry) (map cssName styles)\<rparr>"
  have "buildManifest entry scripts styles = Normal ?m" by (rule buildManifest_eq)
  moreover have "jsName p = take (length (filenameOf p) - 3) (filenameOf p)"
    by (rule jsName_take)
  moreover have "jsName p \<noteq> entry \<longrightarrow> jsName p \<in> set (secondaryScriptNames ?m)"
    using assms(1) by simp
  moreover have "length (secondaryScriptNames ?m) = length (filter (\<lambda>q. jsName q \<noteq> entry) scripts)"
    by (simp add: filter_map comp_def)
  moreover have "length (secondaryStylesheetNames ?m) = length (filter (\<lambda>q. cssName q \<noteq> entry) styles)"
    by (simp add: filter_map comp_def)
  ultimately show ?thesis by blast
qed

theorem buildManifest_returns_on_malformed_witness:
  "''chunk'' \<in> set [''chunk'', ''b.js''] \<and> \<not> suffix ''.js'' ''chunk''
   \<and> (\<exists>m. buildManifest ''main'' [''chunk'', ''b.js''] [] = Normal m
          \<and> ''ch'' \<in> set (secondaryScriptNames m)
          \<and> length (secondaryScriptNames m) = 2)"
proof -
  have h1: "''chunk'' \<in> set [''chunk'', ''b.js'']" by simp
  from buildManifest_returns_on_malformed [OF h1 not_suffix_chunk, of "''main''" "[]"]
  show ?thesis using h1 not_suffix_chunk by (auto simp: jsName_chunk jsName_b)
qed

text \<open>The serialised manifest of the first example, as the template writes it.\<close>

lemma templateContent_example:
  "buildManifestText ''main'' [''js/main.js'', ''js/vendor.js''] [''css/main.css'']
     = Normal (''<?php return array('' @ [CHR 0x0A] @
               ''    '' @ [CHR 0x27] @ ''css'' @ [CHR 0x27] @ '' => [],'' @ [CHR 0x0A] @
               ''    '' @ [CHR 0x27] @ ''js'' @ [CHR 0x27] @ '' => ['' @ [CHR 0x22] @ ''vendor'' @ [CHR 0x22] @ '']);'')"
  by (simp add: buildManifestText_def templateContent_def jsChunks_pluginObject
      cssChunks_pluginObject jsName_main jsName_vendor cssName_main templateText_def
      JSON_stringify_def quoteJSONString_def quoteUnit_def)


section \<open>Properties of the form label\<close>

lemma FormLabel_required:
  "htmlFor \<in> set (REQUIRED_INPUTS im) \<Longrightarrow>
   FormLabel im htmlFor copy =
     Element Tooltip
       [Title (translate im ''Required'' ''web-stories''), Placement (BOTTOM_START im)]
       [Element RequiredHeadline [As ''label'', Size (XX_SMALL im), HtmlFor htmlFor] [Text copy]]"
  by (simp add: FormLabel_def indexOf_mem)

lemma FormLabel_optional:
  "htmlFor \<notin> set (REQUIRED_INPUTS im) \<Longrightarrow>
   FormLabel im htmlFor copy =
     Element Headline [As ''label'', Size (XX_SMALL im), HtmlFor htmlFor] [Text copy]"
  by (simp add: FormLabel_def indexOf_mem)

lemma showsMarker_RequiredHeadline: "showsMarker RequiredHeadline"
  by (simp add: RequiredHeadline_def)

lemma baseComponent_RequiredHeadline: "baseComponent RequiredHeadline = Headline"
  by (simp add: RequiredHeadline_def)

text \<open>
  C1. When \<open>htmlFor\<close> is in \<open>REQUIRED_INPUTS\<close>, \<open>FormLabel\<close> returns a \<open>Tooltip\<close> whose
  title is the translation of \<open>Required\<close>, whose placement is \<open>BOTTOM_START\<close>, and whose
  only child is the label, a \<open>RequiredHeadline\<close>: the component that shows the asterisk
  after its content. So the output has the marker and the tooltip.
\<close>

theorem FormLabel_required_decorated:
  assumes "htmlFor \<in> set (REQUIRED_INPUTS im)"
  shows "\<exists>label.
           FormLabel im htmlFor copy =
             Element Tooltip
               [Title (translate im ''Required'' ''web-stories''), Placement (BOTTOM_START im)]
               [label]
         \<and> labelElements label = [(RequiredHeadline, [As ''label'', Size (XX_SMALL im), HtmlFor htmlFor], [Text copy])]
         \<and> showsMarker RequiredHeadline
         \<and> containsMarker (FormLabel im htmlFor copy)
         \<and> containsTooltip (FormLabel im htmlFor copy)"
  using assms
  by (simp add: FormLabel_required labelElements_def containsMarker_def containsTooltip_def
      showsMarker_RequiredHeadline)

theorem FormLabel_required_decorated_witness:
  "''title'' \<in> set [''title'', ''excerpt'']
   \<and> (\<exists>label.
         FormLabel \<lparr>REQUIRED_INPUTS = [''title'', ''excerpt''], BOTTOM_START = ''BOTTOM_START'',
                    XX_SMALL = ''XX_SMALL'', translate = (\<lambda>t d. t)\<rparr> ''title'' ''Story Title''
           = Element Tooltip [Title ''Required'', Placement ''BOTTOM_START''] [label]
         \<and> labelElements label
           = [(RequiredHeadline, [As ''label'', Size ''XX_SMALL'', HtmlFor ''title''],
               [Text ''Story Title''])])"
  using FormLabel_required_decorated
    [of "''title''"
        "\<lparr>REQUIRED_INPUTS = [''title'', ''excerpt''], BOTTOM_START = ''BOTTOM_START'',
          XX_SMALL = ''XX_SMALL'', translate = (\<lambda>t d. t)\<rparr>"
        "''Story Title''"]
  by simp blast

text \<open>
  C5. When \<open>htmlFor\<close> is not in \<open>REQUIRED_INPUTS\<close>, the output of \<open>FormLabel\<close> has no
  element that shows the marker and no \<open>Tooltip\<close>: it is the plain \<open>Headline\<close> label.
\<close>

theorem FormLabel_optional_plain:
  assumes "htmlFor \<notin> set (REQUIRED_INPUTS im)"
  shows "\<not> containsMarker (FormLabel im htmlFor copy)
       \<and> \<not> containsTooltip (FormLabel im htmlFor copy)
       \<and> FormLabel im htmlFor copy =
           Element Headline [As ''label'', Size (XX_SMALL im), HtmlFor htmlFor] [Text copy]"
  using assms
  by (simp add: FormLabel_optional containsMarker_def containsTooltip_def)

theorem FormLabel_optional_plain_witness:
  "''slug'' \<notin> set [''title'', ''excerpt'']
   \<and> FormLabel \<lparr>REQUIRED_INPUTS = [''title'', ''excerpt''], BOTTOM_START = ''BOTTOM_START'',
                XX_SMALL = ''XX_SMALL'', translate = (\<lambda>t d. t)\<rparr> ''slug'' ''URL Slug''
       = Element Headline [As ''label'', Size ''XX_SMALL'', HtmlFor ''slug''] [Text ''URL Slug'']
   \<and> \<not> containsTooltip
         (FormLabel \<lparr>REQUIRED_INPUTS = [''title'', ''excerpt''], BOTTOM_START = ''BOTTOM_START'',
                XX_SMALL = ''XX_SMALL'', translate = (\<lambda>t d. t)\<rparr> ''slug'' ''URL Slug'')"
  using FormLabel_optional_plain
    [of "''slug''"
        "\<lparr>REQUIRED_INPUTS = [''title'', ''excerpt''], BOTTOM_START = ''BOTTOM_START'',
          XX_SMALL = ''XX_SMALL'', translate = (\<lambda>t d. t)\<rparr>"
        "''URL Slug''"]
  by (simp add: containsTooltip_def)

text \<open>
  C7. Whether the field is required or not, the output of \<open>FormLabel\<close> has exactly one
  label element; its props are \<open>as="label"\<close>, the size \<open>XX_SMALL\<close> and
  \<open>htmlFor={htmlFor}\<close>, its only child is the text \<open>copy\<close>, and its component is
  \<open>Headline\<close> or a styled \<open>Headline\<close>. The label is the output itself, or the only child
  of the \<open>Tooltip\<close> that the output is.
\<close>

theorem FormLabel_label_association:
  "\<exists>c. labelElements (FormLabel im htmlFor copy)
          = [(c, [As ''label'', Size (XX_SMALL im), HtmlFor htmlFor], [Text copy])]
       \<and> baseComponent c = Headline
       \<and> (FormLabel im htmlFor copy
            = Element c [As ''label'', Size (XX_SMALL im), HtmlFor htmlFor] [Text copy]
          \<or> (\<exists>tps. FormLabel im htmlFor copy
                = Element Tooltip tps
                    [Element c [As ''label'', Size (XX_SMALL im), HtmlFor htmlFor] [Text copy]]))"
  by (cases "htmlFor \<in> set (REQUIRED_INPUTS im)")
     (simp_all add: FormLabel_required FormLabel_optional labelElements_def
        baseComponent_RequiredHeadline)

theorem FormLabel_label_association_witness:
  "\<exists>c. labelElements
         (FormLabel \<lparr>REQUIRED_INPUTS = [''title'', ''excerpt''], BOTTOM_START = ''BOTTOM_START'',
                XX_SMALL = ''XX_SMALL'', translate = (\<lambda>t d. t)\<rparr> ''excerpt'' ''Story Description'')
        = [(c, [As ''label'', Size ''XX_SMALL'', HtmlFor ''excerpt''], [Text ''Story Description''])]
      \<and> baseComponent c = Headline"
  using FormLabel_label_association
    [of "\<lparr>REQUIRED_INPUTS = [''title'', ''excerpt''], BOTTOM_START = ''BOTTOM_START'',
          XX_SMALL = ''XX_SMALL'', translate = (\<lambda>t d. t)\<rparr>"
        "''excerpt''" "''Story Description''"]
  by simp blast

text \<open>
  C10. For all strings \<open>htmlFor\<close> and \<open>copy\<close>, the empty ones too, \<open>FormLabel\<close> returns
  normally and throws no error, its output has one label element, and the output has
  the marker and the tooltip exactly when \<open>htmlFor\<close> is in \<open>REQUIRED_INPUTS\<close>.
\<close>

theorem FormLabel_never_throws:
  "renderLabel im htmlFor copy = Normal (FormLabel im htmlFor copy)
   \<and> (\<forall>e. renderLabel im htmlFor copy \<noteq> Throw e)
   \<and> length (labelElements (FormLabel im htmlFor copy)) = 1
   \<and> (containsMarker (FormLabel im htmlFor copy) = (htmlFor \<in> set (REQUIRED_INPUTS im)))
   \<and> (containsTooltip (FormLabel im htmlFor copy) = (htmlFor \<in> set (REQUIRED_INPUTS im)))"
  by (cases "htmlFor \<in> set (REQUIRED_INPUTS im)")
     (simp_all add: renderLabel_def FormLabel_required FormLabel_optional labelElements_def
        containsMarker_def containsTooltip_def showsMarker_RequiredHeadline)

theorem FormLabel_never_throws_witness:
  "renderLabel \<lparr>REQUIRED_INPUTS = [''title'', ''excerpt''], BOTTOM_START = ''BOTTOM_START'',
                XX_SMALL = ''XX_SMALL'', translate = (\<lambda>t d. t)\<rparr> [] []
     = Normal (Element Headline [As ''label'', Size ''XX_SMALL'', HtmlFor []] [Text []])
   \<and> \<not> containsMarker
         (FormLabel \<lparr>REQUIRED_INPUTS = [''title'', ''excerpt''], BOTTOM_START = ''BOTTOM_START'',
                XX_SMALL = ''XX_SMALL'', translate = (\<lambda>t d. t)\<rparr> [] [])"
  using FormLabel_never_throws
    [of "\<lparr>REQUIRED_INPUTS = [''title'', ''excerpt''], BOTTOM_START = ''BOTTOM_START'',
          XX_SMALL = ''XX_SMALL'', translate = (\<lambda>t d. t)\<rparr>"
        "[]" "[]"]
  by (simp add: FormLabel_def)


section \<open>Effects on the store\<close>

lemma chunkName_pluginAt:
  "chunkName (pluginAt r s) = (case arrays s (chunks_at r) of [] \<Rightarrow> None | c # _ \<Rightarrow> Some c)"
  by (simp add: chunkName_def pluginAt_def)

lemma templateContent_pluginAt:
  "templateContent (pluginAt r s) =
     templateText
       (filter (omitPrimaryChunk (chunkName (pluginAt r s))) (map cssName (arrays s (css_at r))))
       (filter (omitPrimaryChunk (chunkName (pluginAt r s))) (map jsName (arrays s (js_at r))))"
  by (simp add: templateContent_def cssChunks_def jsChunks_def) (simp add: pluginAt_def)

lemma templateContent_st_eq:
  assumes "css_at r < next_addr s"
  shows "templateContent_st r s =
     (templateContent (pluginAt r s),
      s\<lparr>arrays := (arrays s)
           (next_addr s := map jsName (arrays s (js_at r)),
            Suc (next_addr s) :=
              filter (omitPrimaryChunk (chunkName (pluginAt r s))) (map jsName (arrays s (js_at r))),
            Suc (Suc (next_addr s)) := map cssName (arrays s (css_at r)),
            Suc (Suc (Suc (next_addr s))) :=
              filter (omitPrimaryChunk (chunkName (pluginAt r s))) (map cssName (arrays s (css_at r)))),
         next_addr := Suc (Suc (Suc (Suc (next_addr s))))\<rparr>)"
  using assms
  by (simp add: templateContent_st_def array_map_def array_filter_def new_array_def Let_def
      templateContent_pluginAt chunkName_pluginAt)

lemma FormLabel_importsAt:
  "FormLabel (importsAt q im s) htmlFor copy =
     (if indexOf (arrays s q) htmlFor > - 1 then
        Element Tooltip
          [Title (localised s ''Required'' ''web-stories''), Placement (BOTTOM_START im)]
          [Element RequiredHeadline
             [As ''label'', Size (XX_SMALL im), HtmlFor htmlFor] [Text copy]]
      else
        Element Headline [As ''label'', Size (XX_SMALL im), HtmlFor htmlFor] [Text copy])"
  by (simp add: FormLabel_def importsAt_def)

lemma FormLabel_st_eq:
  "FormLabel_st q im htmlFor copy s =
     (if indexOf (arrays s q) htmlFor > - 1 then
        (Suc (next_addr s),
         s\<lparr>elems := (elems s)
              (next_addr s :=
                 Element RequiredHeadline
                   [As ''label'', Size (XX_SMALL im), HtmlFor htmlFor] [Text copy],
               Suc (next_addr s) := FormLabel (importsAt q im s) htmlFor copy),
            next_addr := Suc (Suc (next_addr s))\<rparr>)
      else
        (next_addr s,
         s\<lparr>elems := (elems s)(next_addr s := FormLabel (importsAt q im s) htmlFor copy),
            next_addr := Suc (next_addr s)\<rparr>))"
  by (simp add: FormLabel_st_def createElement_def Let_def FormLabel_importsAt)

lemma FormLabel_st_output:
  "outputOf (FormLabel_st q im htmlFor copy s) = FormLabel (importsAt q im s) htmlFor copy"
  by (simp add: FormLabel_st_eq outputOf_def)

lemma FormLabel_st_arrays: "arrays (snd (FormLabel_st q im htmlFor copy s)) = arrays s"
  by (simp add: FormLabel_st_eq)

lemma FormLabel_st_localised: "localised (snd (FormLabel_st q im htmlFor copy s)) = localised s"
  by (simp add: FormLabel_st_eq)

lemma FormLabel_st_elems:
  "a < next_addr s \<Longrightarrow> elems (snd (FormLabel_st q im htmlFor copy s)) a = elems s a"
  by (simp add: FormLabel_st_eq)

lemma FormLabel_importsAt_cong:
  assumes "arrays t q = arrays s q"
    and "localised t ''Required'' ''web-stories'' = localised s ''Required'' ''web-stories''"
  shows "FormLabel (importsAt q im t) htmlFor copy = FormLabel (importsAt q im s) htmlFor copy"
  using assms by (simp add: FormLabel_importsAt)

text \<open>
  C8, as the specification states it, fails for the label: with the same identifier,
  the same display text and the same required-fields list, two calls return different
  elements when the locale differs, because the title of the tooltip is what \<open>__\<close>
  returns for \<open>Required\<close>.
\<close>

theorem renderLabel_locale_counterexample:
  "arrays (exampleStore untranslated) 0 = arrays (exampleStore translated) 0
   \<and> outputOf (FormLabel_st 0 exampleImports ''title'' ''Story Title'' (exampleStore untranslated))
       = Element Tooltip [Title ''Required'', Placement ''BOTTOM_START'']
           [Element RequiredHeadline
              [As ''label'', Size ''XX_SMALL'', HtmlFor ''title''] [Text ''Story Title'']]
   \<and> outputOf (FormLabel_st 0 exampleImports ''title'' ''Story Title'' (exampleStore translated))
       = Element Tooltip [Title ''Erforderlich'', Placement ''BOTTOM_START'']
           [Element RequiredHeadline
              [As ''label'', Size ''XX_SMALL'', HtmlFor ''title''] [Text ''Story Title'']]
   \<and> outputOf (FormLabel_st 0 exampleImports ''title'' ''Story Title'' (exampleStore untranslated))
       \<noteq> outputOf (FormLabel_st 0 exampleImports ''title'' ''Story Title'' (exampleStore translated))
   \<and> FormLabel exampleImports ''title'' ''Story Title''
       \<noteq> FormLabel (exampleImports\<lparr>translate := translated\<rparr>) ''title'' ''Story Title''"
proof -
  have a: "outputOf (FormLabel_st 0 exampleImports ''title'' ''Story Title'' (exampleStore untranslated))
       = Element Tooltip [Title ''Required'', Placement ''BOTTOM_START'']
           [Element RequiredHeadline
              [As ''label'', Size ''XX_SMALL'', HtmlFor ''title''] [Text ''Story Title'']]"
    by (simp add: FormLabel_st_output FormLabel_importsAt exampleStore_def
        exampleArrays_def exampleImports_def untranslated_def)
  have b: "outputOf (FormLabel_st 0 exampleImports ''title'' ''Story Title'' (exampleStore translated))
       = Element Tooltip [Title ''Erforderlich'', Placement ''BOTTOM_START'']
           [Element RequiredHeadline
              [As ''label'', Size ''XX_SMALL'', HtmlFor ''title''] [Text ''Story Title'']]"
    by (simp add: FormLabel_st_output FormLabel_importsAt exampleStore_def
        exampleArrays_def exampleImports_def translated_def)
  have c: "FormLabel exampleImports ''title'' ''Story Title''
       = Element Tooltip [Title ''Required'', Placement ''BOTTOM_START'']
           [Element RequiredHeadline
              [As ''label'', Size ''XX_SMALL'', HtmlFor ''title''] [Text ''Story Title'']]"
    by (simp add: FormLabel_def exampleImports_def untranslated_def)
  have d: "FormLabel (exampleImports\<lparr>translate := translated\<rparr>) ''title'' ''Story Title''
       = Element Tooltip [Title ''Erforderlich'', Placement ''BOTTOM_START'']
           [Element RequiredHeadline
              [As ''label'', Size ''XX_SMALL'', HtmlFor ''title''] [Text ''Story Title'']]"
    by (simp add: FormLabel_def exampleImports_def translated_def)
  have e: "arrays (exampleStore untranslated) 0 = arrays (exampleStore translated) 0"
    by (simp add: exampleStore_def)
  show ?thesis unfolding a b c d using e by simp
qed

text \<open>
  C8, amended. \<open>templateContent\<close> is pure: on a store in which its three input arrays are
  in use it returns what the function of the arrays' contents returns, writes only to
  the arrays it makes (every array in use, every element and the locale are as they
  were), returns the same again when run on the store it left, and returns the same on
  any store and references that show the same plugin object. \<open>FormLabel\<close> changes no
  array, not the locale and no element in use; it only makes new elements. Its output
  is the function \<open>FormLabel\<close> of its arguments, the contents of \<open>REQUIRED_INPUTS\<close> and
  the locale: a second call on the store it left returns an equal element, and so does
  a call on any store with the same \<open>REQUIRED_INPUTS\<close> and the same translation of
  \<open>Required\<close>.
\<close>

theorem operations_pure:
  assumes "chunks_at r < next_addr (s :: ('p, 's) store)" and "js_at r < next_addr s" and "css_at r < next_addr s"
    and "q < next_addr s"
  shows "(\<exists>out s'. templateContent_st r s = (out, s')
      \<and> out = templateContent (pluginAt r s)
      \<and> (\<forall>a. a < next_addr s \<longrightarrow> arrays s' a = arrays s a)
      \<and> elems s' = elems s \<and> localised s' = localised s
      \<and> fst (templateContent_st r s') = out
      \<and> (\<forall>r' (t :: ('p, 's) store).
            css_at r' < next_addr t \<longrightarrow> pluginAt r' t = pluginAt r s \<longrightarrow>
            fst (templateContent_st r' t) = out))
    \<and> (\<exists>root s'. FormLabel_st q im htmlFor copy s = (root, s')
      \<and> elems s' root = FormLabel (importsAt q im s) htmlFor copy
      \<and> arrays s' = arrays s \<and> localised s' = localised s
      \<and> (\<forall>a. a < next_addr s \<longrightarrow> elems s' a = elems s a)
      \<and> outputOf (FormLabel_st q im htmlFor copy s') = elems s' root
      \<and> (\<forall>t. arrays t q = arrays s q \<longrightarrow>
            localised t ''Required'' ''web-stories'' = localised s ''Required'' ''web-stories'' \<longrightarrow>
            outputOf (FormLabel_st q im htmlFor copy t) = elems s' root))"
proof
  obtain out s' where run: "templateContent_st r s = (out, s')"
    by (cases "templateContent_st r s")
  from run assms(3) have out: "out = templateContent (pluginAt r s)"
    by (simp add: templateContent_st_eq)
  from run assms(3) have next': "next_addr s' = Suc (Suc (Suc (Suc (next_addr s))))"
    by (auto simp: templateContent_st_eq)
  from run assms(3) have kept: "arrays s' a = arrays s a" if "a < next_addr s" for a
    using that by (auto simp: templateContent_st_eq)
  from run assms(3) have el: "elems s' = elems s" by (auto simp: templateContent_st_eq)
  from run assms(3) have lo: "localised s' = localised s" by (auto simp: templateContent_st_eq)
  from assms kept have same: "pluginAt r s' = pluginAt r s"
    by (simp add: pluginAt_def)
  from assms(3) next' have "css_at r < next_addr s'" by simp
  then have again: "fst (templateContent_st r s') = out"
    by (simp add: templateContent_st_eq same out)
  have det: "fst (templateContent_st r' t) = out"
    if "css_at r' < next_addr t" and "pluginAt r' t = pluginAt r s" for r' and t :: "('p, 's) store"
    using that by (simp add: templateContent_st_eq out)
  show "\<exists>out s'. templateContent_st r s = (out, s')
      \<and> out = templateContent (pluginAt r s)
      \<and> (\<forall>a. a < next_addr s \<longrightarrow> arrays s' a = arrays s a)
      \<and> elems s' = elems s \<and> localised s' = localised s
      \<and> fst (templateContent_st r s') = out
      \<and> (\<forall>r' (t :: ('p, 's) store).
            css_at r' < next_addr t \<longrightarrow> pluginAt r' t = pluginAt r s \<longrightarrow>
            fst (templateContent_st r' t) = out)"
  proof (intro exI conjI allI impI)
    show "templateContent_st r s = (out, s')" by (rule run)
    show "out = templateContent (pluginAt r s)" by (rule out)
    show "arrays s' a = arrays s a" if "a < next_addr s" for a using that by (rule kept)
    show "elems s' = elems s" by (rule el)
    show "localised s' = localised s" by (rule lo)
    show "fst (templateContent_st r s') = out" by (rule again)
    show "fst (templateContent_st r' t) = out"
      if "css_at r' < next_addr t" and "pluginAt r' t = pluginAt r s"
      for r' and t :: "('p, 's) store"
      using that by (rule det)
  qed
next
  obtain root s' where run: "FormLabel_st q im htmlFor copy s = (root, s')"
    by (cases "FormLabel_st q im htmlFor copy s")
  have out: "elems s' root = FormLabel (importsAt q im s) htmlFor copy"
    using FormLabel_st_output [of q im htmlFor copy s] run by (simp add: outputOf_def)
  have ar: "arrays s' = arrays s"
    using FormLabel_st_arrays [of q im htmlFor copy s] run by simp
  have lo: "localised s' = localised s"
    using FormLabel_st_localised [of q im htmlFor copy s] run by simp
  have kept: "elems s' a = elems s a" if "a < next_addr s" for a
    using FormLabel_st_elems [OF that, of q im htmlFor copy] run by simp
  have det: "outputOf (FormLabel_st q im htmlFor copy t) = elems s' root"
    if "arrays t q = arrays s q"
      and "localised t ''Required'' ''web-stories'' = localised s ''Required'' ''web-stories''"
    for t
    using FormLabel_importsAt_cong [OF that, of im htmlFor copy]
    by (simp add: FormLabel_st_output out)
  have again: "outputOf (FormLabel_st q im htmlFor copy s') = elems s' root"
    using ar lo by (intro det) simp_all
  show "\<exists>root s'. FormLabel_st q im htmlFor copy s = (root, s')
      \<and> elems s' root = FormLabel (importsAt q im s) htmlFor copy
      \<and> arrays s' = arrays s \<and> localised s' = localised s
      \<and> (\<forall>a. a < next_addr s \<longrightarrow> elems s' a = elems s a)
      \<and> outputOf (FormLabel_st q im htmlFor copy s') = elems s' root
      \<and> (\<forall>t. arrays t q = arrays s q \<longrightarrow>
            localised t ''Required'' ''web-stories'' = localised s ''Required'' ''web-stories'' \<longrightarrow>
            outputOf (FormLabel_st q im htmlFor copy t) = elems s' root)"
  proof (intro exI conjI allI impI)
    show "FormLabel_st q im htmlFor copy s = (root, s')" by (rule run)
    show "elems s' root = FormLabel (importsAt q im s) htmlFor copy" by (rule out)
    show "arrays s' = arrays s" by (rule ar)
    show "localised s' = localised s" by (rule lo)
    show "elems s' a = elems s a" if "a < next_addr s" for a using that by (rule kept)
    show "outputOf (FormLabel_st q im htmlFor copy s') = elems s' root" by (rule again)
    show "outputOf (FormLabel_st q im htmlFor copy t) = elems s' root"
      if "arrays t q = arrays s q"
        and "localised t ''Required'' ''web-stories'' = localised s ''Required'' ''web-stories''"
      for t
      using that by (rule det)
  qed
qed

theorem operations_pure_witness:
  "(\<exists>out s'. templateContent_st exampleRefs (exampleStore untranslated) = (out, s')
      \<and> arrays s' 2 = [''js/main.js'', ''js/vendor.js'']
      \<and> fst (templateContent_st exampleRefs s') = out)
   \<and> (\<exists>root s'. FormLabel_st 0 exampleImports ''title'' ''Story Title'' (exampleStore untranslated)
          = (root, s')
      \<and> elems s' root
          = Element Tooltip [Title ''Required'', Placement ''BOTTOM_START'']
              [Element RequiredHeadline
                 [As ''label'', Size ''XX_SMALL'', HtmlFor ''title''] [Text ''Story Title'']]
      \<and> arrays s' 0 = [''title'', ''excerpt'']
      \<and> outputOf (FormLabel_st 0 exampleImports ''title'' ''Story Title'' s') = elems s' root)"
proof -
  let ?s = "exampleStore untranslated"
  have h1: "chunks_at exampleRefs < next_addr ?s" by (simp add: exampleRefs_def exampleStore_def)
  have h2: "js_at exampleRefs < next_addr ?s" by (simp add: exampleRefs_def exampleStore_def)
  have h3: "css_at exampleRefs < next_addr ?s" by (simp add: exampleRefs_def exampleStore_def)
  have h4: "0 < next_addr ?s" by (simp add: exampleStore_def)
  note pure = operations_pure [OF h1 h2 h3 h4, of exampleImports "''title''" "''Story Title''"]
  from pure obtain out s' where a: "templateContent_st exampleRefs ?s = (out, s')"
    and b: "\<forall>a. a < next_addr ?s \<longrightarrow> arrays s' a = arrays ?s a"
    and c: "fst (templateContent_st exampleRefs s') = out"
    by (elim conjE exE) (rule that)
  from b have "arrays s' 2 = arrays ?s 2" by (simp add: exampleStore_def)
  then have b': "arrays s' 2 = [''js/main.js'', ''js/vendor.js'']"
    by (simp add: exampleStore_def exampleArrays_def)
  from pure obtain root t' where
    d: "FormLabel_st 0 exampleImports ''title'' ''Story Title'' ?s = (root, t')"
    and e: "elems t' root = FormLabel (importsAt 0 exampleImports ?s) ''title'' ''Story Title''"
    and f: "arrays t' = arrays ?s"
    and g: "outputOf (FormLabel_st 0 exampleImports ''title'' ''Story Title'' t') = elems t' root"
    by (elim conjE exE) (rule that)
  from e have e': "elems t' root
          = Element Tooltip [Title ''Required'', Placement ''BOTTOM_START'']
              [Element RequiredHeadline
                 [As ''label'', Size ''XX_SMALL'', HtmlFor ''title''] [Text ''Story Title'']]"
    by (simp add: FormLabel_importsAt exampleStore_def exampleArrays_def exampleImports_def
        untranslated_def)
  from f have f': "arrays t' 0 = [''title'', ''excerpt'']"
    by (simp add: exampleStore_def exampleArrays_def)
  from a b' c d e' f' g show ?thesis by (intro conjI exI)
qed

end
